theory Spec2Isabelle
  imports Complex_Main
begin

section \<open>Values and errors\<close>

text \<open>
  The models of \<^verbatim>\<open>soil_data.py\<close> and \<^verbatim>\<open>plant_data.py\<close> declare their numeric columns
  as \<^verbatim>\<open>Float\<close> and \<^verbatim>\<open>Integer\<close>. A \<^verbatim>\<open>Float\<close> column is modelled as an exact
  \<^typ>\<open>real\<close>: comparison and arithmetic are the mathematical ones, so the rounding of
  IEEE doubles, infinities and NaN are outside the model. An \<^verbatim>\<open>Integer\<close> column and a
  Python \<^verbatim>\<open>int\<close> are \<^typ>\<open>int\<close>, a \<^verbatim>\<open>Text\<close> or \<^verbatim>\<open>String\<close> column is a
  \<^typ>\<open>string\<close>, and a raised exception is the \<open>Inl\<close> branch of a sum. The
  columns of a reading are taken to hold a value of their type, with three exceptions:
  the key and the timestamp, which the database fills in, and the \<open>health_score\<close> of a
  plant reading, which is \<^verbatim>\<open>None\<close> on an object until it is assigned or the row is
  inserted. \<^verbatim>\<open>get_npk_ratio\<close> is not modelled: what it returns is decided by the
  rounding of doubles, in the divisions and in \<^verbatim>\<open>round\<close>.
\<close>

datatype error = ValueError string | TypeError

section \<open>Threshold configuration (config/settings.py)\<close>

text \<open>
  The numeric thresholds of class \<^verbatim>\<open>Config\<close>. Each is read from the environment with a
  default; \<open>default_Config\<close> holds the defaults, that is the configuration of a process
  whose environment sets none of the variables. The database, mail and dashboard
  settings play no part in the scoring and are left out.
\<close>

record Config =
  SOIL_PH_MIN :: real
  SOIL_PH_MAX :: real
  SOIL_MOISTURE_MIN :: real
  SOIL_MOISTURE_MAX :: real
  SOIL_TEMP_MIN :: real
  SOIL_TEMP_MAX :: real
  NITROGEN_MIN :: real
  NITROGEN_MAX :: real
  PHOSPHORUS_MIN :: real
  PHOSPHORUS_MAX :: real
  POTASSIUM_MIN :: real
  POTASSIUM_MAX :: real
  PLANT_HEALTH_SCORE_MIN :: real
  GROWTH_RATE_MIN :: real

definition default_Config :: Config where
  "default_Config =
     \<lparr> SOIL_PH_MIN = 6.0, SOIL_PH_MAX = 7.5,
       SOIL_MOISTURE_MIN = 30.0, SOIL_MOISTURE_MAX = 80.0,
       SOIL_TEMP_MIN = 15.0, SOIL_TEMP_MAX = 30.0,
       NITROGEN_MIN = 20.0, NITROGEN_MAX = 50.0,
       PHOSPHORUS_MIN = 10.0, PHOSPHORUS_MAX = 30.0,
       POTASSIUM_MIN = 15.0, POTASSIUM_MAX = 40.0,
       PLANT_HEALTH_SCORE_MIN = 70.0, GROWTH_RATE_MIN = 0.5 \<rparr>"

section \<open>Soil readings (src/models/soil_data.py)\<close>

text \<open>
  One field per column of \<^verbatim>\<open>SoilReading\<close>, in the order of the class body. The primary
  key is \<open>id'\<close> and the notes are \<open>notes'\<close> (\<open>id\<close> is the identity function of
  HOL and \<open>notes\<close> a keyword of Isabelle); the key and the timestamp are optional
  because the database fills them in.
\<close>

record SoilReading =
  id' :: "int option"
  timestamp :: "nat option"
  location :: string
  nitrogen :: real
  phosphorus :: real
  potassium :: real
  ph_level :: real
  moisture_percent :: real
  temperature_celsius :: real
  electrical_conductivity :: real
  organic_matter_percent :: real
  salinity_level :: real
  sensor_id :: string
  is_valid :: bool
  notes' :: string

subsection \<open>Validators\<close>

text \<open>
  A method decorated with \<^verbatim>\<open>@validates('col')\<close> receives the reading, the column name
  and the value on every assignment to that column; what it returns is stored, and what
  it raises aborts the assignment.
\<close>

definition validate_ph :: "SoilReading \<Rightarrow> string \<Rightarrow> real \<Rightarrow> error + real" where
  "validate_ph self key ph =
     (if ph < 0 \<or> ph > 14 then Inl (ValueError ''pH must be between 0 and 14'')
      else Inr ph)"

definition validate_moisture :: "SoilReading \<Rightarrow> string \<Rightarrow> real \<Rightarrow> error + real" where
  "validate_moisture self key moisture =
     (if moisture < 0 \<or> moisture > 100
      then Inl (ValueError ''Moisture percentage must be between 0 and 100'')
      else Inr moisture)"

definition validate_temperature :: "SoilReading \<Rightarrow> string \<Rightarrow> real \<Rightarrow> error + real" where
  "validate_temperature self key temp =
     (if temp < - 50 \<or> temp > 80
      then Inl (ValueError ''Temperature must be between -50 and 80 Celsius'')
      else Inr temp)"

subsection \<open>Assignment to a column\<close>

text \<open>
  Assignment to a column with a validator runs the validator first; the three nutrient
  columns have no \<^verbatim>\<open>@validates\<close> method, so whatever is assigned to them is stored.
\<close>

definition set_ph_level :: "SoilReading \<Rightarrow> real \<Rightarrow> error + SoilReading" where
  "set_ph_level self v =
     (case validate_ph self ''ph_level'' v of
        Inl e \<Rightarrow> Inl e
      | Inr v' \<Rightarrow> Inr (self\<lparr>ph_level := v'\<rparr>))"

definition set_moisture_percent :: "SoilReading \<Rightarrow> real \<Rightarrow> error + SoilReading" where
  "set_moisture_percent self v =
     (case validate_moisture self ''moisture_percent'' v of
        Inl e \<Rightarrow> Inl e
      | Inr v' \<Rightarrow> Inr (self\<lparr>moisture_percent := v'\<rparr>))"

definition set_temperature_celsius :: "SoilReading \<Rightarrow> real \<Rightarrow> error + SoilReading" where
  "set_temperature_celsius self v =
     (case validate_temperature self ''temperature_celsius'' v of
        Inl e \<Rightarrow> Inl e
      | Inr v' \<Rightarrow> Inr (self\<lparr>temperature_celsius := v'\<rparr>))"

definition set_nitrogen :: "SoilReading \<Rightarrow> real \<Rightarrow> error + SoilReading" where
  "set_nitrogen self v = Inr (self\<lparr>nitrogen := v\<rparr>)"

definition set_phosphorus :: "SoilReading \<Rightarrow> real \<Rightarrow> error + SoilReading" where
  "set_phosphorus self v = Inr (self\<lparr>phosphorus := v\<rparr>)"

definition set_potassium :: "SoilReading \<Rightarrow> real \<Rightarrow> error + SoilReading" where
  "set_potassium self v = Inr (self\<lparr>potassium := v\<rparr>)"

subsection \<open>Nutrient deficiencies and the soil quality score\<close>

text \<open>
  \<^verbatim>\<open>is_nutrient_deficient\<close> appends to a list in three steps, and
  \<^verbatim>\<open>get_soil_quality_score\<close> lowers a running integer score in seven; each step of the
  source is one binding of the \<open>let\<close> chain.
\<close>

definition is_nutrient_deficient :: "SoilReading \<Rightarrow> Config \<Rightarrow> string list" where
  "is_nutrient_deficient self config =
     (let deficiencies = [];
          deficiencies = (if nitrogen self < NITROGEN_MIN config
                          then deficiencies @ [''nitrogen''] else deficiencies);
          deficiencies = (if phosphorus self < PHOSPHORUS_MIN config
                          then deficiencies @ [''phosphorus''] else deficiencies);
          deficiencies = (if potassium self < POTASSIUM_MIN config
                          then deficiencies @ [''potassium''] else deficiencies)
      in deficiencies)"

definition get_soil_quality_score :: "SoilReading \<Rightarrow> Config \<Rightarrow> int" where
  "get_soil_quality_score self config =
     (let score = 100;
          score = (if ph_level self < SOIL_PH_MIN config \<or> ph_level self > SOIL_PH_MAX config
                   then score - 20 else score);
          score = (if moisture_percent self < SOIL_MOISTURE_MIN config
                      \<or> moisture_percent self > SOIL_MOISTURE_MAX config
                   then score - 15 else score);
          score = (if temperature_celsius self < SOIL_TEMP_MIN config
                      \<or> temperature_celsius self > SOIL_TEMP_MAX config
                   then score - 10 else score);
          score = (if nitrogen self < NITROGEN_MIN config then score - 15 else score);
          score = (if phosphorus self < PHOSPHORUS_MIN config then score - 15 else score);
          score = (if potassium self < POTASSIUM_MIN config then score - 15 else score);
          score = (if salinity_level self > 2.0 then score - 10 else score)
      in max 0 score)"

text \<open>
  The reading of the worked example: the six values it gives, and a value for each
  column it leaves open (the salinity is 0.0).
\<close>

definition example_soil :: SoilReading where
  "example_soil =
     \<lparr> id' = None, timestamp = None, location = ''default'',
       nitrogen = 10, phosphorus = 10, potassium = 10,
       ph_level = 7.0, moisture_percent = 50, temperature_celsius = 20,
       electrical_conductivity = 1.0,
       organic_matter_percent = 0.0, salinity_level = 0.0,
       sensor_id = ''sensor-1'', is_valid = True, notes' = '''' \<rparr>"

subsection \<open>Violated threshold bands\<close>

text \<open>
  The seven conditions that \<^verbatim>\<open>get_soil_quality_score\<close> tests, one name for each, and
  the set of those a reading meets under a configuration. The score is compared below
  with the sets of two readings.
\<close>

datatype band =
  PH_band | Moisture_band | Temperature_band
  | Nitrogen_band | Phosphorus_band | Potassium_band | Salinity_band

definition violated_bands :: "SoilReading \<Rightarrow> Config \<Rightarrow> band set" where
  "violated_bands self config =
     (if ph_level self < SOIL_PH_MIN config \<or> ph_level self > SOIL_PH_MAX config
      then {PH_band} else {})
     \<union> (if moisture_percent self < SOIL_MOISTURE_MIN config
            \<or> moisture_percent self > SOIL_MOISTURE_MAX config
         then {Moisture_band} else {})
     \<union> (if temperature_celsius self < SOIL_TEMP_MIN config
            \<or> temperature_celsius self > SOIL_TEMP_MAX config
         then {Temperature_band} else {})
     \<union> (if nitrogen self < NITROGEN_MIN config then {Nitrogen_band} else {})
     \<union> (if phosphorus self < PHOSPHORUS_MIN config then {Phosphorus_band} else {})
     \<union> (if potassium self < POTASSIUM_MIN config then {Potassium_band} else {})
     \<union> (if salinity_level self > 2.0 then {Salinity_band} else {})"

section \<open>Plant readings (src/models/plant_data.py)\<close>

text \<open>
  One field per column of \<^verbatim>\<open>PlantReading\<close>. The columns it shares by name with
  \<^verbatim>\<open>SoilReading\<close> are fields of this record of their own. The colour channels and the
  leaf count are \<^verbatim>\<open>Integer\<close> columns. The column \<open>health_score\<close> is declared with
  \<^verbatim>\<open>default=100.0\<close>; the attribute of an object is \<open>None\<close> until a value is assigned to
  it or the row is inserted.
\<close>

record PlantReading =
  id' :: "int option"
  timestamp :: "nat option"
  location :: string
  plant_type :: string
  plant_id :: string
  height_cm :: real
  leaf_count :: int
  stem_diameter_mm :: real
  leaf_color_r :: int
  leaf_color_g :: int
  leaf_color_b :: int
  leaf_chlorophyll_index :: real
  disease_symptoms :: string
  pest_presence :: bool
  water_stress_level :: real
  nutrient_deficiency_signs :: string
  heat_stress_score :: real
  drought_stress_score :: real
  growth_rate_cm_per_week :: real
  health_score :: "real option"
  sensor_id :: string
  is_valid :: bool
  notes' :: string

subsection \<open>Validators of a plant reading\<close>

definition validate_height :: "PlantReading \<Rightarrow> string \<Rightarrow> real \<Rightarrow> error + real" where
  "validate_height self key height =
     (if height < 0 \<or> height > 1000
      then Inl (ValueError ''Height must be between 0 and 1000 cm'')
      else Inr height)"

definition validate_rgb :: "PlantReading \<Rightarrow> string \<Rightarrow> int \<Rightarrow> error + int" where
  "validate_rgb self key v =
     (if v < 0 \<or> v > 255
      then Inl (ValueError ''RGB values must be between 0 and 255'')
      else Inr v)"

definition validate_stress_scores :: "PlantReading \<Rightarrow> string \<Rightarrow> real \<Rightarrow> error + real" where
  "validate_stress_scores self key score =
     (if score < 0 \<or> score > 10
      then Inl (ValueError ''Stress scores must be between 0 and 10'')
      else Inr score)"

definition validate_health_score :: "PlantReading \<Rightarrow> string \<Rightarrow> real \<Rightarrow> error + real" where
  "validate_health_score self key score =
     (if score < 0 \<or> score > 100
      then Inl (ValueError ''Health score must be between 0 and 100'')
      else Inr score)"

subsection \<open>Assignment to a validated column\<close>

text \<open>
  \<^verbatim>\<open>validate_rgb\<close> is registered for the three colour channels and
  \<^verbatim>\<open>validate_stress_scores\<close> for the three stress columns; the column assigned to is
  the \<open>key\<close> the validator receives.
\<close>

definition set_height_cm :: "PlantReading \<Rightarrow> real \<Rightarrow> error + PlantReading" where
  "set_height_cm self v =
     (case validate_height self ''height_cm'' v of
        Inl e \<Rightarrow> Inl e
      | Inr v' \<Rightarrow> Inr (self\<lparr>height_cm := v'\<rparr>))"

definition set_leaf_color_r :: "PlantReading \<Rightarrow> int \<Rightarrow> error + PlantReading" where
  "set_leaf_color_r self v =
     (case validate_rgb self ''leaf_color_r'' v of
        Inl e \<Rightarrow> Inl e
      | Inr v' \<Rightarrow> Inr (self\<lparr>leaf_color_r := v'\<rparr>))"

definition set_leaf_color_g :: "PlantReading \<Rightarrow> int \<Rightarrow> error + PlantReading" where
  "set_leaf_color_g self v =
     (case validate_rgb self ''leaf_color_g'' v of
        Inl e \<Rightarrow> Inl e
      | Inr v' \<Rightarrow> Inr (self\<lparr>leaf_color_g := v'\<rparr>))"

definition set_leaf_color_b :: "PlantReading \<Rightarrow> int \<Rightarrow> error + PlantReading" where
  "set_leaf_color_b self v =
     (case validate_rgb self ''leaf_color_b'' v of
        Inl e \<Rightarrow> Inl e
      | Inr v' \<Rightarrow> Inr (self\<lparr>leaf_color_b := v'\<rparr>))"

definition set_water_stress_level :: "PlantReading \<Rightarrow> real \<Rightarrow> error + PlantReading" where
  "set_water_stress_level self v =
     (case validate_stress_scores self ''water_stress_level'' v of
        Inl e \<Rightarrow> Inl e
      | Inr v' \<Rightarrow> Inr (self\<lparr>water_stress_level := v'\<rparr>))"

definition set_heat_stress_score :: "PlantReading \<Rightarrow> real \<Rightarrow> error + PlantReading" where
  "set_heat_stress_score self v =
     (case validate_stress_scores self ''heat_stress_score'' v of
        Inl e \<Rightarrow> Inl e
      | Inr v' \<Rightarrow> Inr (self\<lparr>heat_stress_score := v'\<rparr>))"

definition set_drought_stress_score :: "PlantReading \<Rightarrow> real \<Rightarrow> error + PlantReading" where
  "set_drought_stress_score self v =
     (case validate_stress_scores self ''drought_stress_score'' v of
        Inl e \<Rightarrow> Inl e
      | Inr v' \<Rightarrow> Inr (self\<lparr>drought_stress_score := v'\<rparr>))"

definition set_health_score :: "PlantReading \<Rightarrow> real \<Rightarrow> error + PlantReading" where
  "set_health_score self v =
     (case validate_health_score self ''health_score'' v of
        Inl e \<Rightarrow> Inl e
      | Inr v' \<Rightarrow> Inr (self\<lparr>health_score := Some v'\<rparr>))"

subsection \<open>The health score and what is derived from it\<close>

text \<open>
  \<^verbatim>\<open>calculate_health_score\<close> is a method of the reading. The model returns its result
  together with the reading as the call leaves it; the body has no assignment to an
  attribute of \<^verbatim>\<open>self\<close>. A text column is true in a condition when it is not empty.
\<close>

definition calculate_health_score :: "PlantReading \<Rightarrow> real \<times> PlantReading" where
  "calculate_health_score self =
     (let base_score = 100.0;
          base_score = base_score - (water_stress_level self * 5);
          base_score = base_score - (heat_stress_score self * 3);
          base_score = base_score - (drought_stress_score self * 3);
          base_score = (if disease_symptoms self \<noteq> [] then base_score - 20 else base_score);
          base_score = (if pest_presence self then base_score - 15 else base_score);
          base_score = (if nutrient_deficiency_signs self \<noteq> []
                        then base_score - 15 else base_score);
          base_score = (if leaf_chlorophyll_index self > 40 then base_score + 5
                        else if leaf_chlorophyll_index self < 20 then base_score - 10
                        else base_score);
          base_score = (if growth_rate_cm_per_week self < 0.5 then base_score - 10
                        else if growth_rate_cm_per_week self > 2.0 then base_score + 5
                        else base_score)
      in (max 0.0 (min 100.0 base_score), self))"

text \<open>
  The threshold of \<^verbatim>\<open>is_healthy\<close> is a keyword argument with the default 70.0:
  \<open>None\<close> is the call that leaves it out. The comparison \<^verbatim>\<open>>=\<close> of \<^verbatim>\<open>None\<close> with a
  float raises \<^verbatim>\<open>TypeError\<close>.
\<close>

definition is_healthy :: "PlantReading \<Rightarrow> real option \<Rightarrow> error + bool" where
  "is_healthy self threshold =
     (let threshold = (case threshold of None \<Rightarrow> 70.0 | Some t \<Rightarrow> t)
      in case health_score self of
           None \<Rightarrow> Inl TypeError
         | Some h \<Rightarrow> Inr (h \<ge> threshold))"

definition get_growth_status :: "PlantReading \<Rightarrow> string" where
  "get_growth_status self =
     (if growth_rate_cm_per_week self \<ge> 2.0 then ''Excellent growth''
      else if growth_rate_cm_per_week self \<ge> 1.0 then ''Good growth''
      else if growth_rate_cm_per_week self \<ge> 0.5 then ''Moderate growth''
      else ''Slow growth'')"

subsection \<open>Inserting the row\<close>

text \<open>
  Column defaults are applied when the row is inserted, not when the object is
  constructed: on INSERT the database assigns the key (\<^verbatim>\<open>autoincrement\<close>), the
  timestamp gets the current time (\<^verbatim>\<open>default=datetime.utcnow\<close>) and the health score
  gets 100.0 (\<^verbatim>\<open>default=100.0\<close>), each only where the attribute is still \<open>None\<close>.
  The key and the time are parameters of the model.
\<close>

definition insert_row :: "int \<Rightarrow> nat \<Rightarrow> PlantReading \<Rightarrow> PlantReading" where
  "insert_row key now self =
     self\<lparr> id' := (case id' self of None \<Rightarrow> Some key | Some k \<Rightarrow> Some k),
           timestamp := (case timestamp self of None \<Rightarrow> Some now | Some t \<Rightarrow> Some t),
           health_score := (case health_score self of None \<Rightarrow> Some 100.0 | Some h \<Rightarrow> Some h) \<rparr>"

text \<open>
  A reading under the greatest stress the validators admit, constructed with a value
  for every column but the health score, and not inserted: its key, its timestamp and
  its health score are \<open>None\<close>.
\<close>

definition stressed_plant :: PlantReading where
  "stressed_plant =
     \<lparr> id' = None, timestamp = None, location = ''default'',
       plant_type = ''tomato'', plant_id = ''plant-1'',
       height_cm = 50, leaf_count = 0, stem_diameter_mm = 0.0,
       leaf_color_r = 0, leaf_color_g = 0, leaf_color_b = 0,
       leaf_chlorophyll_index = 10,
       disease_symptoms = ''leaf spot'', pest_presence = True,
       water_stress_level = 10, nutrient_deficiency_signs = ''yellowing'',
       heat_stress_score = 10, drought_stress_score = 10,
       growth_rate_cm_per_week = 0.2,
       health_score = None,
       sensor_id = ''sensor-1'', is_valid = True, notes' = '''' \<rparr>"

section \<open>Properties of the models\<close>

text \<open>
  C1, as the code computes it. A reading with nitrogen, phosphorus and potassium all 10,
  pH 7.0, moisture 50 and temperature 20, whose salinity does not exceed 2.0, scored
  against the default thresholds: phosphorus 10 is not below its minimum 10, but
  potassium 10 is below its minimum 15, as nitrogen 10 is below 20. The deficiencies are
  nitrogen and potassium, in this order, and the score is 100 - 15 - 15 = 70.
\<close>

theorem C1_example_deficiencies_and_score:
  assumes "nitrogen r = 10" and "phosphorus r = 10" and "potassium r = 10"
    and "ph_level r = 7.0" and "moisture_percent r = 50" and "temperature_celsius r = 20"
    and "salinity_level r \<le> 2.0"
  shows "is_nutrient_deficient r default_Config = [''nitrogen'', ''potassium'']
         \<and> get_soil_quality_score r default_Config = 70"
  using assms
  by (simp add: is_nutrient_deficient_def get_soil_quality_score_def default_Config_def)

theorem C1_example_witness:
  "nitrogen example_soil = 10 \<and> phosphorus example_soil = 10 \<and> potassium example_soil = 10
   \<and> ph_level example_soil = 7.0 \<and> moisture_percent example_soil = 50
   \<and> temperature_celsius example_soil = 20 \<and> salinity_level example_soil \<le> 2.0
   \<and> is_nutrient_deficient example_soil default_Config = [''nitrogen'', ''potassium'']
   \<and> get_soil_quality_score example_soil default_Config = 70"
proof -
  have h: "nitrogen example_soil = 10" "phosphorus example_soil = 10"
    "potassium example_soil = 10" "ph_level example_soil = 7.0"
    "moisture_percent example_soil = 50" "temperature_celsius example_soil = 20"
    "salinity_level example_soil \<le> 2.0"
    by (simp_all add: example_soil_def)
  from C1_example_deficiencies_and_score [OF h] h show ?thesis by simp
qed

text \<open>
  C1 as the specification states it does not hold: on the example reading the list of
  deficiencies is not \<open>['nitrogen']\<close> and the score is not 85.
\<close>

theorem C1_counterexample:
  "is_nutrient_deficient example_soil default_Config \<noteq> [''nitrogen'']
   \<and> get_soil_quality_score example_soil default_Config \<noteq> 85"
  by (simp add: is_nutrient_deficient_def get_soil_quality_score_def default_Config_def
      example_soil_def)

subsection \<open>Assignment to the nutrient columns\<close>

text \<open>
  C2 as the specification states it does not hold: a negative value assigned to any of
  the three nutrient columns is stored, and the stored reading has a negative nutrient.
\<close>

theorem C2_counterexample:
  "set_nitrogen example_soil (- 5) = Inr (example_soil\<lparr>nitrogen := - 5\<rparr>)
   \<and> nitrogen (example_soil\<lparr>nitrogen := - 5\<rparr>) < 0
   \<and> set_phosphorus example_soil (- 5) = Inr (example_soil\<lparr>phosphorus := - 5\<rparr>)
   \<and> phosphorus (example_soil\<lparr>phosphorus := - 5\<rparr>) < 0
   \<and> set_potassium example_soil (- 5) = Inr (example_soil\<lparr>potassium := - 5\<rparr>)
   \<and> potassium (example_soil\<lparr>potassium := - 5\<rparr>) < 0"
  by (simp add: set_nitrogen_def set_phosphorus_def set_potassium_def)

text \<open>
  C2, as the code behaves. No assignment to nitrogen, phosphorus or potassium raises:
  whatever the value, negative or not, the assignment succeeds and the column of the
  resulting reading holds that value.
\<close>

theorem C2_nutrients_stored_unchecked:
  "\<not> isl (set_nitrogen r v) \<and> nitrogen (projr (set_nitrogen r v)) = v
   \<and> \<not> isl (set_phosphorus r v) \<and> phosphorus (projr (set_phosphorus r v)) = v
   \<and> \<not> isl (set_potassium r v) \<and> potassium (projr (set_potassium r v)) = v"
  by (simp add: set_nitrogen_def set_phosphorus_def set_potassium_def)

subsection \<open>What a rejected assignment raises\<close>

text \<open>
  C3 as the specification states it does not hold. Two different rejected values of
  \<open>ph_level\<close> raise one and the same error, so the error does not carry the value; and
  rejected assignments to two different colour channels raise one and the same error, so
  it does not carry the name of the column either.
\<close>

theorem C3_counterexample:
  "isl (set_ph_level example_soil 15)
   \<and> set_ph_level example_soil 15 = set_ph_level example_soil 20
   \<and> isl (set_leaf_color_r stressed_plant 300)
   \<and> set_leaf_color_r stressed_plant 300 = set_leaf_color_g stressed_plant 256"
  by (simp add: set_ph_level_def validate_ph_def set_leaf_color_r_def set_leaf_color_g_def
      validate_rgb_def)

lemma soil_rejection_message:
  "isl (set_ph_level s v) \<longrightarrow>
     set_ph_level s v = Inl (ValueError ''pH must be between 0 and 14'')"
  "isl (set_moisture_percent s v) \<longrightarrow>
     set_moisture_percent s v = Inl (ValueError ''Moisture percentage must be between 0 and 100'')"
  "isl (set_temperature_celsius s v) \<longrightarrow>
     set_temperature_celsius s v
       = Inl (ValueError ''Temperature must be between -50 and 80 Celsius'')"
  by (simp_all add: set_ph_level_def validate_ph_def set_moisture_percent_def
      validate_moisture_def set_temperature_celsius_def validate_temperature_def)

lemma plant_rejection_message:
  "isl (set_height_cm p v) \<longrightarrow>
     set_height_cm p v = Inl (ValueError ''Height must be between 0 and 1000 cm'')"
  "isl (set_leaf_color_r p n) \<longrightarrow>
     set_leaf_color_r p n = Inl (ValueError ''RGB values must be between 0 and 255'')"
  "isl (set_leaf_color_g p n) \<longrightarrow>
     set_leaf_color_g p n = Inl (ValueError ''RGB values must be between 0 and 255'')"
  "isl (set_leaf_color_b p n) \<longrightarrow>
     set_leaf_color_b p n = Inl (ValueError ''RGB values must be between 0 and 255'')"
  "isl (set_water_stress_level p v) \<longrightarrow>
     set_water_stress_level p v = Inl (ValueError ''Stress scores must be between 0 and 10'')"
  "isl (set_heat_stress_score p v) \<longrightarrow>
     set_heat_stress_score p v = Inl (ValueError ''Stress scores must be between 0 and 10'')"
  "isl (set_drought_stress_score p v) \<longrightarrow>
     set_drought_stress_score p v = Inl (ValueError ''Stress scores must be between 0 and 10'')"
  "isl (set_health_score p v) \<longrightarrow>
     set_health_score p v = Inl (ValueError ''Health score must be between 0 and 100'')"
  by (simp_all add: set_height_cm_def validate_height_def set_leaf_color_r_def
      set_leaf_color_g_def set_leaf_color_b_def validate_rgb_def set_water_stress_level_def
      set_heat_stress_score_def set_drought_stress_score_def validate_stress_scores_def
      set_health_score_def validate_health_score_def)

text \<open>
  C3, as the code behaves. Every rejected assignment to a bounded column raises a
  \<open>ValueError\<close> whose message is the fixed text of the column's validator: it names the
  quantity and the two bounds, and is the same for every rejected value and for every
  column the validator serves.
\<close>

theorem C3_rejection_raises_fixed_message:
  "(isl (set_ph_level s v) \<longrightarrow>
      set_ph_level s v = Inl (ValueError ''pH must be between 0 and 14''))
   \<and> (isl (set_moisture_percent s v) \<longrightarrow>
      set_moisture_percent s v
        = Inl (ValueError ''Moisture percentage must be between 0 and 100''))
   \<and> (isl (set_temperature_celsius s v) \<longrightarrow>
      set_temperature_celsius s v
        = Inl (ValueError ''Temperature must be between -50 and 80 Celsius''))
   \<and> (isl (set_height_cm p v) \<longrightarrow>
      set_height_cm p v = Inl (ValueError ''Height must be between 0 and 1000 cm''))
   \<and> (isl (set_leaf_color_r p n) \<longrightarrow>
      set_leaf_color_r p n = Inl (ValueError ''RGB values must be between 0 and 255''))
   \<and> (isl (set_leaf_color_g p n) \<longrightarrow>
      set_leaf_color_g p n = Inl (ValueError ''RGB values must be between 0 and 255''))
   \<and> (isl (set_leaf_color_b p n) \<longrightarrow>
      set_leaf_color_b p n = Inl (ValueError ''RGB values must be between 0 and 255''))
   \<and> (isl (set_water_stress_level p v) \<longrightarrow>
      set_water_stress_level p v = Inl (ValueError ''Stress scores must be between 0 and 10''))
   \<and> (isl (set_heat_stress_score p v) \<longrightarrow>
      set_heat_stress_score p v = Inl (ValueError ''Stress scores must be between 0 and 10''))
   \<and> (isl (set_drought_stress_score p v) \<longrightarrow>
      set_drought_stress_score p v
        = Inl (ValueError ''Stress scores must be between 0 and 10''))
   \<and> (isl (set_health_score p v) \<longrightarrow>
      set_health_score p v = Inl (ValueError ''Health score must be between 0 and 100''))"
  by (intro conjI soil_rejection_message plant_rejection_message)

text \<open>
  The value 2000 and the channel value 300 are out of range for every bounded column:
  each of the eleven assignments is rejected, with the message of its validator.
\<close>

theorem C3_rejection_witness:
  "set_ph_level example_soil 2000 = Inl (ValueError ''pH must be between 0 and 14'')
   \<and> set_moisture_percent example_soil 2000
       = Inl (ValueError ''Moisture percentage must be between 0 and 100'')
   \<and> set_temperature_celsius example_soil 2000
       = Inl (ValueError ''Temperature must be between -50 and 80 Celsius'')
   \<and> set_height_cm stressed_plant 2000
       = Inl (ValueError ''Height must be between 0 and 1000 cm'')
   \<and> set_leaf_color_r stressed_plant 300
       = Inl (ValueError ''RGB values must be between 0 and 255'')
   \<and> set_leaf_color_g stressed_plant 300
       = Inl (ValueError ''RGB values must be between 0 and 255'')
   \<and> set_leaf_color_b stressed_plant 300
       = Inl (ValueError ''RGB values must be between 0 and 255'')
   \<and> set_water_stress_level stressed_plant 2000
       = Inl (ValueError ''Stress scores must be between 0 and 10'')
   \<and> set_heat_stress_score stressed_plant 2000
       = Inl (ValueError ''Stress scores must be between 0 and 10'')
   \<and> set_drought_stress_score stressed_plant 2000
       = Inl (ValueError ''Stress scores must be between 0 and 10'')
   \<and> set_health_score stressed_plant 2000
       = Inl (ValueError ''Health score must be between 0 and 100'')"
proof -
  have rejected:
    "isl (set_ph_level example_soil 2000)" "isl (set_moisture_percent example_soil 2000)"
    "isl (set_temperature_celsius example_soil 2000)"
    "isl (set_height_cm stressed_plant 2000)"
    "isl (set_leaf_color_r stressed_plant 300)" "isl (set_leaf_color_g stressed_plant 300)"
    "isl (set_leaf_color_b stressed_plant 300)"
    "isl (set_water_stress_level stressed_plant 2000)"
    "isl (set_heat_stress_score stressed_plant 2000)"
    "isl (set_drought_stress_score stressed_plant 2000)"
    "isl (set_health_score stressed_plant 2000)"
    by (simp_all add: set_ph_level_def validate_ph_def set_moisture_percent_def
        validate_moisture_def set_temperature_celsius_def validate_temperature_def
        set_height_cm_def validate_height_def set_leaf_color_r_def
        set_leaf_color_g_def set_leaf_color_b_def validate_rgb_def set_water_stress_level_def
        set_heat_stress_score_def set_drought_stress_score_def validate_stress_scores_def
        set_health_score_def validate_health_score_def)
  from C3_rejection_raises_fixed_message
         [where s = example_soil and v = 2000 and p = stressed_plant and n = 300]
       rejected
  show ?thesis by blast
qed

subsection \<open>The bounds of the validated columns\<close>

lemma soil_assignment_range:
  "isl (set_ph_level s v) = (v < 0 \<or> v > 14)"
  "(set_ph_level s v = Inr (s\<lparr>ph_level := v\<rparr>)) = (0 \<le> v \<and> v \<le> 14)"
  "isl (set_moisture_percent s v) = (v < 0 \<or> v > 100)"
  "(set_moisture_percent s v = Inr (s\<lparr>moisture_percent := v\<rparr>)) = (0 \<le> v \<and> v \<le> 100)"
  "isl (set_temperature_celsius s v) = (v < - 50 \<or> v > 80)"
  "(set_temperature_celsius s v = Inr (s\<lparr>temperature_celsius := v\<rparr>))
     = (- 50 \<le> v \<and> v \<le> 80)"
  by (auto simp add: set_ph_level_def validate_ph_def set_moisture_percent_def
      validate_moisture_def set_temperature_celsius_def validate_temperature_def)

lemma plant_real_assignment_range:
  "isl (set_height_cm p v) = (v < 0 \<or> v > 1000)"
  "(set_height_cm p v = Inr (p\<lparr>height_cm := v\<rparr>)) = (0 \<le> v \<and> v \<le> 1000)"
  "isl (set_water_stress_level p v) = (v < 0 \<or> v > 10)"
  "(set_water_stress_level p v = Inr (p\<lparr>water_stress_level := v\<rparr>)) = (0 \<le> v \<and> v \<le> 10)"
  "isl (set_heat_stress_score p v) = (v < 0 \<or> v > 10)"
  "(set_heat_stress_score p v = Inr (p\<lparr>heat_stress_score := v\<rparr>)) = (0 \<le> v \<and> v \<le> 10)"
  "isl (set_drought_stress_score p v) = (v < 0 \<or> v > 10)"
  "(set_drought_stress_score p v = Inr (p\<lparr>drought_stress_score := v\<rparr>))
     = (0 \<le> v \<and> v \<le> 10)"
  "isl (set_health_score p v) = (v < 0 \<or> v > 100)"
  "(set_health_score p v = Inr (p\<lparr>health_score := Some v\<rparr>)) = (0 \<le> v \<and> v \<le> 100)"
  by (auto simp add: set_height_cm_def validate_height_def set_water_stress_level_def
      set_heat_stress_score_def set_drought_stress_score_def validate_stress_scores_def
      set_health_score_def validate_health_score_def)

lemma plant_channel_assignment_range:
  "isl (set_leaf_color_r p n) = (n < 0 \<or> n > 255)"
  "(set_leaf_color_r p n = Inr (p\<lparr>leaf_color_r := n\<rparr>)) = (0 \<le> n \<and> n \<le> 255)"
  "isl (set_leaf_color_g p n) = (n < 0 \<or> n > 255)"
  "(set_leaf_color_g p n = Inr (p\<lparr>leaf_color_g := n\<rparr>)) = (0 \<le> n \<and> n \<le> 255)"
  "isl (set_leaf_color_b p n) = (n < 0 \<or> n > 255)"
  "(set_leaf_color_b p n = Inr (p\<lparr>leaf_color_b := n\<rparr>)) = (0 \<le> n \<and> n \<le> 255)"
  by (auto simp add: set_leaf_color_r_def set_leaf_color_g_def set_leaf_color_b_def
      validate_rgb_def)

text \<open>
  C4. For each bounded column, an assignment raises exactly when the value is below the
  lower or above the upper bound of the column, and it stores the value unchanged
  exactly when the value lies in the closed range, the two bounds included. The columns
  and ranges are \<open>ph_level\<close> [0,14], \<open>moisture_percent\<close> [0,100],
  \<open>temperature_celsius\<close> [-50,80], \<open>height_cm\<close> [0,1000], the three colour channels
  [0,255], the three stress scores [0,10] and \<open>health_score\<close> [0,100].
\<close>

theorem C4_rejected_iff_outside_closed_range:
  "isl (set_ph_level s v) = (v < 0 \<or> v > 14)
   \<and> (set_ph_level s v = Inr (s\<lparr>ph_level := v\<rparr>)) = (0 \<le> v \<and> v \<le> 14)
   \<and> isl (set_moisture_percent s v) = (v < 0 \<or> v > 100)
   \<and> (set_moisture_percent s v = Inr (s\<lparr>moisture_percent := v\<rparr>)) = (0 \<le> v \<and> v \<le> 100)
   \<and> isl (set_temperature_celsius s v) = (v < - 50 \<or> v > 80)
   \<and> (set_temperature_celsius s v = Inr (s\<lparr>temperature_celsius := v\<rparr>))
       = (- 50 \<le> v \<and> v \<le> 80)
   \<and> isl (set_height_cm p v) = (v < 0 \<or> v > 1000)
   \<and> (set_height_cm p v = Inr (p\<lparr>height_cm := v\<rparr>)) = (0 \<le> v \<and> v \<le> 1000)
   \<and> isl (set_leaf_color_r p n) = (n < 0 \<or> n > 255)
   \<and> (set_leaf_color_r p n = Inr (p\<lparr>leaf_color_r := n\<rparr>)) = (0 \<le> n \<and> n \<le> 255)
   \<and> isl (set_leaf_color_g p n) = (n < 0 \<or> n > 255)
   \<and> (set_leaf_color_g p n = Inr (p\<lparr>leaf_color_g := n\<rparr>)) = (0 \<le> n \<and> n \<le> 255)
   \<and> isl (set_leaf_color_b p n) = (n < 0 \<or> n > 255)
   \<and> (set_leaf_color_b p n = Inr (p\<lparr>leaf_color_b := n\<rparr>)) = (0 \<le> n \<and> n \<le> 255)
   \<and> isl (set_water_stress_level p v) = (v < 0 \<or> v > 10)
   \<and> (set_water_stress_level p v = Inr (p\<lparr>water_stress_level := v\<rparr>))
       = (0 \<le> v \<and> v \<le> 10)
   \<and> isl (set_heat_stress_score p v) = (v < 0 \<or> v > 10)
   \<and> (set_heat_stress_score p v = Inr (p\<lparr>heat_stress_score := v\<rparr>))
       = (0 \<le> v \<and> v \<le> 10)
   \<and> isl (set_drought_stress_score p v) = (v < 0 \<or> v > 10)
   \<and> (set_drought_stress_score p v = Inr (p\<lparr>drought_stress_score := v\<rparr>))
       = (0 \<le> v \<and> v \<le> 10)
   \<and> isl (set_health_score p v) = (v < 0 \<or> v > 100)
   \<and> (set_health_score p v = Inr (p\<lparr>health_score := Some v\<rparr>)) = (0 \<le> v \<and> v \<le> 100)"
  by (intro conjI soil_assignment_range plant_real_assignment_range
      plant_channel_assignment_range)

subsection \<open>The soil quality score and the violated bands\<close>

lemma step_as_penalty: "(if A then s - k else s) = s - (if A then k else (0::int))"
  by simp

lemma band_violated_iff:
  "PH_band \<in> violated_bands r c
     \<longleftrightarrow> ph_level r < SOIL_PH_MIN c \<or> ph_level r > SOIL_PH_MAX c"
  "Moisture_band \<in> violated_bands r c
     \<longleftrightarrow> moisture_percent r < SOIL_MOISTURE_MIN c \<or> moisture_percent r > SOIL_MOISTURE_MAX c"
  "Temperature_band \<in> violated_bands r c
     \<longleftrightarrow> temperature_celsius r < SOIL_TEMP_MIN c \<or> temperature_celsius r > SOIL_TEMP_MAX c"
  "Nitrogen_band \<in> violated_bands r c \<longleftrightarrow> nitrogen r < NITROGEN_MIN c"
  "Phosphorus_band \<in> violated_bands r c \<longleftrightarrow> phosphorus r < PHOSPHORUS_MIN c"
  "Potassium_band \<in> violated_bands r c \<longleftrightarrow> potassium r < POTASSIUM_MIN c"
  "Salinity_band \<in> violated_bands r c \<longleftrightarrow> salinity_level r > 2.0"
  by (simp_all add: violated_bands_def)

text \<open>
  The score is 100 less the penalty of every violated band, and not less than 0.
\<close>

lemma score_by_band:
  "get_soil_quality_score r c =
     max 0 (100
       - (if PH_band \<in> violated_bands r c then 20 else 0)
       - (if Moisture_band \<in> violated_bands r c then 15 else 0)
       - (if Temperature_band \<in> violated_bands r c then 10 else 0)
       - (if Nitrogen_band \<in> violated_bands r c then 15 else 0)
       - (if Phosphorus_band \<in> violated_bands r c then 15 else 0)
       - (if Potassium_band \<in> violated_bands r c then 15 else 0)
       - (if Salinity_band \<in> violated_bands r c then 10 else 0))"
  unfolding get_soil_quality_score_def Let_def step_as_penalty band_violated_iff ..

lemma penalty_mono:
  "(A \<Longrightarrow> B) \<Longrightarrow> 0 \<le> k \<Longrightarrow> (if A then k else 0) \<le> (if B then k else (0::int))"
  by simp

lemma floored_difference_mono:
  "a1 \<le> a2 \<Longrightarrow> b1 \<le> b2 \<Longrightarrow> c1 \<le> c2 \<Longrightarrow> d1 \<le> d2 \<Longrightarrow> e1 \<le> e2 \<Longrightarrow> f1 \<le> f2 \<Longrightarrow> g1 \<le> g2
   \<Longrightarrow> max 0 (100 - a2 - b2 - c2 - d2 - e2 - f2 - g2)
       \<le> max (0::int) (100 - a1 - b1 - c1 - d1 - e1 - f1 - g1)"
  by linarith

lemma score_antimono:
  assumes sub: "violated_bands r1 c \<subseteq> violated_bands r2 c"
  shows "get_soil_quality_score r2 c \<le> get_soil_quality_score r1 c"
  unfolding score_by_band
  by (intro floored_difference_mono penalty_mono) (use sub in auto)

text \<open>
  C6. The soil quality score is never negative, and of two readings scored under the
  same configuration, the one that violates every band the other violates (and
  possibly more) does not have the higher score.
\<close>

theorem C6_soil_score_floor_and_monotone:
  "0 \<le> get_soil_quality_score r c
   \<and> (violated_bands r1 c \<subseteq> violated_bands r2 c
        \<longrightarrow> get_soil_quality_score r2 c \<le> get_soil_quality_score r1 c)"
proof (intro conjI impI)
  show "0 \<le> get_soil_quality_score r c"
    unfolding get_soil_quality_score_def Let_def by (rule max.cobounded1)
next
  assume "violated_bands r1 c \<subseteq> violated_bands r2 c"
  then show "get_soil_quality_score r2 c \<le> get_soil_quality_score r1 c"
    by (rule score_antimono)
qed

text \<open>
  The example reading with potassium raised to 20 violates the nitrogen band only and
  scores 85; the example reading violates the potassium band as well and scores 70.
\<close>

theorem C6_soil_score_witness:
  "violated_bands (example_soil\<lparr>potassium := 20\<rparr>) default_Config
     \<subseteq> violated_bands example_soil default_Config
   \<and> get_soil_quality_score (example_soil\<lparr>potassium := 20\<rparr>) default_Config = 85
   \<and> get_soil_quality_score example_soil default_Config = 70
   \<and> get_soil_quality_score example_soil default_Config
       \<le> get_soil_quality_score (example_soil\<lparr>potassium := 20\<rparr>) default_Config"
proof -
  have sub: "violated_bands (example_soil\<lparr>potassium := 20\<rparr>) default_Config
     \<subseteq> violated_bands example_soil default_Config"
    by (simp add: violated_bands_def example_soil_def default_Config_def)
  have vals: "get_soil_quality_score (example_soil\<lparr>potassium := 20\<rparr>) default_Config = 85"
    "get_soil_quality_score example_soil default_Config = 70"
    by (simp_all add: get_soil_quality_score_def example_soil_def default_Config_def)
  from C6_soil_score_floor_and_monotone
         [where ?r1.0 = "example_soil\<lparr>potassium := 20\<rparr>" and ?r2.0 = example_soil
            and c = default_Config]
       sub vals
  show ?thesis by blast
qed

subsection \<open>The plant health score\<close>

lemma health_score_is_clamped:
  "\<exists>x. fst (calculate_health_score r) = max 0.0 (min 100.0 x)"
  unfolding calculate_health_score_def Let_def fst_conv
  by (rule exI, rule refl)

text \<open>
  C5. The health score of every reading lies between 0 and 100 (the clamp of the last
  line does not depend on the fields being in their valid ranges), and under maximal
  stress (the three stress scores at 10, disease symptoms, pests, deficiency signs,
  chlorophyll index below 20 and growth below 0.5 cm per week) it is exactly 0.
\<close>

theorem C5_health_score_clamped:
  "0 \<le> fst (calculate_health_score r) \<and> fst (calculate_health_score r) \<le> 100
   \<and> (water_stress_level r = 10 \<and> heat_stress_score r = 10 \<and> drought_stress_score r = 10
        \<and> disease_symptoms r \<noteq> [] \<and> pest_presence r \<and> nutrient_deficiency_signs r \<noteq> []
        \<and> leaf_chlorophyll_index r < 20 \<and> growth_rate_cm_per_week r < 0.5
      \<longrightarrow> fst (calculate_health_score r) = 0)"
proof (intro conjI impI)
  from health_score_is_clamped [of r]
  obtain x where x: "fst (calculate_health_score r) = max 0.0 (min 100.0 x)" ..
  show "0 \<le> fst (calculate_health_score r)" by (simp add: x)
  show "fst (calculate_health_score r) \<le> 100" by (simp add: x)
next
  assume "water_stress_level r = 10 \<and> heat_stress_score r = 10 \<and> drought_stress_score r = 10
        \<and> disease_symptoms r \<noteq> [] \<and> pest_presence r \<and> nutrient_deficiency_signs r \<noteq> []
        \<and> leaf_chlorophyll_index r < 20 \<and> growth_rate_cm_per_week r < 0.5"
  then show "fst (calculate_health_score r) = 0"
    by (simp add: calculate_health_score_def)
qed

theorem C5_maximal_stress_witness:
  "water_stress_level stressed_plant = 10 \<and> heat_stress_score stressed_plant = 10
   \<and> drought_stress_score stressed_plant = 10 \<and> disease_symptoms stressed_plant \<noteq> []
   \<and> pest_presence stressed_plant \<and> nutrient_deficiency_signs stressed_plant \<noteq> []
   \<and> leaf_chlorophyll_index stressed_plant < 20
   \<and> growth_rate_cm_per_week stressed_plant < 0.5
   \<and> fst (calculate_health_score stressed_plant) = 0"
proof -
  have h: "water_stress_level stressed_plant = 10 \<and> heat_stress_score stressed_plant = 10
   \<and> drought_stress_score stressed_plant = 10 \<and> disease_symptoms stressed_plant \<noteq> []
   \<and> pest_presence stressed_plant \<and> nutrient_deficiency_signs stressed_plant \<noteq> []
   \<and> leaf_chlorophyll_index stressed_plant < 20
   \<and> growth_rate_cm_per_week stressed_plant < 0.5"
    by (simp add: stressed_plant_def)
  from C5_health_score_clamped [of stressed_plant] h show ?thesis by blast
qed

text \<open>
  C8. The call of \<^verbatim>\<open>calculate_health_score\<close> leaves the reading as it was, every field of
  it; in particular the stored \<open>health_score\<close> after the call is the one before it.
\<close>

theorem C8_calculate_health_score_leaves_reading:
  "snd (calculate_health_score r) = r
   \<and> health_score (snd (calculate_health_score r)) = health_score r"
  by (simp only: calculate_health_score_def Let_def snd_conv)

text \<open>
  On the reading under maximal stress, once inserted, the call returns 0, and the stored
  score is still the 100 it was.
\<close>

lemma calculate_health_score_not_stored:
  "fst (calculate_health_score (insert_row 1 0 stressed_plant)) = 0
   \<and> health_score (snd (calculate_health_score (insert_row 1 0 stressed_plant))) = Some 100"
  by (simp add: calculate_health_score_def stressed_plant_def insert_row_def)

subsection \<open>The growth status\<close>

text \<open>
  C9 as the specification states it does not hold: at a growth rate of 2.0 the method
  returns the string \<open>Excellent growth\<close>, which is not the string \<open>Excellent\<close>.
\<close>

theorem C9_counterexample:
  "get_growth_status (stressed_plant\<lparr>growth_rate_cm_per_week := 2.0\<rparr>) = ''Excellent growth''
   \<and> get_growth_status (stressed_plant\<lparr>growth_rate_cm_per_week := 2.0\<rparr>) \<noteq> ''Excellent''"
  by (simp add: get_growth_status_def)

text \<open>
  C9, with the labels the code returns. The growth status is one of \<open>Excellent growth\<close>,
  \<open>Good growth\<close>, \<open>Moderate growth\<close> and \<open>Slow growth\<close>: the first from a rate of 2.0
  on, the second from 1.0 up to but not including 2.0, the third from 0.5 up to but not
  including 1.0, the last below 0.5. A rate on a boundary gets the higher label.
\<close>

theorem C9_growth_status_bands:
  "(2.0 \<le> growth_rate_cm_per_week r \<longrightarrow> get_growth_status r = ''Excellent growth'')
   \<and> (1.0 \<le> growth_rate_cm_per_week r \<and> growth_rate_cm_per_week r < 2.0
        \<longrightarrow> get_growth_status r = ''Good growth'')
   \<and> (0.5 \<le> growth_rate_cm_per_week r \<and> growth_rate_cm_per_week r < 1.0
        \<longrightarrow> get_growth_status r = ''Moderate growth'')
   \<and> (growth_rate_cm_per_week r < 0.5 \<longrightarrow> get_growth_status r = ''Slow growth'')
   \<and> get_growth_status r
        \<in> {''Excellent growth'', ''Good growth'', ''Moderate growth'', ''Slow growth''}"
  by (simp add: get_growth_status_def)

text \<open>The three boundary rates and a rate just below the lowest boundary.\<close>

theorem C9_growth_status_witness:
  "get_growth_status (stressed_plant\<lparr>growth_rate_cm_per_week := 2.0\<rparr>) = ''Excellent growth''
   \<and> get_growth_status (stressed_plant\<lparr>growth_rate_cm_per_week := 1.0\<rparr>) = ''Good growth''
   \<and> get_growth_status (stressed_plant\<lparr>growth_rate_cm_per_week := 0.5\<rparr>) = ''Moderate growth''
   \<and> get_growth_status (stressed_plant\<lparr>growth_rate_cm_per_week := 0.49\<rparr>) = ''Slow growth''"
  using C9_growth_status_bands [of "stressed_plant\<lparr>growth_rate_cm_per_week := 2.0\<rparr>"]
    C9_growth_status_bands [of "stressed_plant\<lparr>growth_rate_cm_per_week := 1.0\<rparr>"]
    C9_growth_status_bands [of "stressed_plant\<lparr>growth_rate_cm_per_week := 0.5\<rparr>"]
    C9_growth_status_bands [of "stressed_plant\<lparr>growth_rate_cm_per_week := 0.49\<rparr>"]
  by simp

subsection \<open>The health check\<close>

text \<open>
  C10 as the specification states it does not hold. The reading under maximal stress
  was constructed and its score never computed or stored; its \<open>health_score\<close> is not
  100.0 but \<open>None\<close>, and \<^verbatim>\<open>is_healthy()\<close> with the default threshold does not return true:
  it raises \<^verbatim>\<open>TypeError\<close>.
\<close>

theorem C10_counterexample:
  "health_score stressed_plant = None
   \<and> is_healthy stressed_plant None = Inl TypeError
   \<and> is_healthy stressed_plant None \<noteq> Inr True"
  by (simp add: is_healthy_def stressed_plant_def)

text \<open>
  C10, as the code behaves. \<^verbatim>\<open>is_healthy\<close> reads the stored \<open>health_score\<close> and nothing
  else of the reading. Where the field holds a score, the result is the comparison of
  that score with the threshold by \<open>\<ge>\<close>, the threshold left out being 70, so a score
  equal to the threshold is healthy. Where the field is still \<open>None\<close>, the call raises
  \<^verbatim>\<open>TypeError\<close>; once the row is inserted the field holds the column default 100, and
  the reading is healthy under the default threshold whatever its stress scores, disease
  symptoms and pest flag are.
\<close>

theorem C10_is_healthy_reads_stored_score:
  "(health_score r = Some h \<longrightarrow> is_healthy r (Some t) = Inr (h \<ge> t))
   \<and> (health_score r = Some h \<longrightarrow> is_healthy r None = Inr (h \<ge> 70))
   \<and> (health_score r = Some t \<longrightarrow> is_healthy r (Some t) = Inr True)
   \<and> (health_score r = health_score r' \<longrightarrow> is_healthy r th = is_healthy r' th)
   \<and> (health_score r = None \<longrightarrow> is_healthy r th = Inl TypeError)
   \<and> (health_score r = None \<longrightarrow> is_healthy (insert_row key now r) None = Inr True)"
  by (simp add: is_healthy_def insert_row_def)

text \<open>
  The reading under maximal stress before and after the insertion of its row: before,
  \<^verbatim>\<open>is_healthy()\<close> raises; after, the stored score is 100, the reading is healthy at
  the threshold 100 and at the default threshold, and the score that
  \<^verbatim>\<open>calculate_health_score\<close> computes for it is 0.
\<close>

theorem C10_is_healthy_witness:
  "health_score stressed_plant = None
   \<and> is_healthy stressed_plant None = Inl TypeError
   \<and> health_score (insert_row 1 0 stressed_plant) = Some 100
   \<and> is_healthy (insert_row 1 0 stressed_plant) None = Inr True
   \<and> is_healthy (insert_row 1 0 stressed_plant) (Some 100) = Inr True
   \<and> is_healthy (insert_row 1 0 stressed_plant) (Some 100)
       = is_healthy (insert_row 2 5 stressed_plant) (Some 100)
   \<and> fst (calculate_health_score (insert_row 1 0 stressed_plant)) = 0"
proof -
  have unset: "health_score stressed_plant = None"
    by (simp add: stressed_plant_def)
  have stored: "health_score (insert_row 1 0 stressed_plant) = Some 100"
    "health_score (insert_row 1 0 stressed_plant) = health_score (insert_row 2 5 stressed_plant)"
    by (simp_all add: stressed_plant_def insert_row_def)
  have computed: "fst (calculate_health_score (insert_row 1 0 stressed_plant)) = 0"
    by (simp add: calculate_health_score_def stressed_plant_def insert_row_def)
  from C10_is_healthy_reads_stored_score
         [where r = stressed_plant and r' = stressed_plant and th = None
            and key = 1 and now = 0]
       C10_is_healthy_reads_stored_score
         [where r = "insert_row 1 0 stressed_plant" and r' = "insert_row 2 5 stressed_plant"
            and h = 100 and t = 100 and th = "Some 100"]
       unset stored computed
  show ?thesis by auto
qed

end
